theory Spec2Isabelle
  imports Complex_Main
begin

section \<open>The cube demo of openGlProject.cpp\<close>

text \<open>
  The program keeps all of its state in global variables; the embedding collects them in
  one record and passes it through every function. C \<open>float\<close> and \<open>double\<close> values are
  modelled as \<open>real\<close>: arithmetic is exact, the literals \<open>2.5f\<close>, \<open>0.1f\<close> and \<open>89.0f\<close>
  are the rationals they denote, and there is neither rounding nor NaN. The GLFW and GLM
  functions the program calls are modelled by what their documentation says.
\<close>

subsection \<open>GLM vectors\<close>

datatype vec3 = Vec3 (vx: real) (vy: real) (vz: real)

text \<open>\<open>operator+\<close>, \<open>operator-\<close> and the product with a scalar, componentwise.\<close>

fun vadd :: "vec3 \<Rightarrow> vec3 \<Rightarrow> vec3" where
  "vadd (Vec3 a b c) (Vec3 x y z) = Vec3 (a + x) (b + y) (c + z)"

fun vsub :: "vec3 \<Rightarrow> vec3 \<Rightarrow> vec3" where
  "vsub (Vec3 a b c) (Vec3 x y z) = Vec3 (a - x) (b - y) (c - z)"

fun smul :: "real \<Rightarrow> vec3 \<Rightarrow> vec3" where
  "smul k (Vec3 x y z) = Vec3 (k * x) (k * y) (k * z)"

fun glm_dot :: "vec3 \<Rightarrow> vec3 \<Rightarrow> real" where
  "glm_dot (Vec3 a b c) (Vec3 x y z) = a * x + b * y + c * z"

fun glm_cross :: "vec3 \<Rightarrow> vec3 \<Rightarrow> vec3" where
  "glm_cross (Vec3 a b c) (Vec3 x y z) = Vec3 (b * z - y * c) (c * x - z * a) (a * y - x * b)"

definition glm_length :: "vec3 \<Rightarrow> real" where
  "glm_length v = sqrt (glm_dot v v)"

text \<open>
  \<open>glm::normalize(v)\<close> is \<open>v * inversesqrt(dot(v, v))\<close>. On the zero vector the C++ code
  produces NaN components; here the quotient \<open>1 / 0\<close> is \<open>0\<close>, so statements about a
  normalized vector are made for a nonzero argument only.
\<close>

definition glm_normalize :: "vec3 \<Rightarrow> vec3" where
  "glm_normalize v = smul (1 / sqrt (glm_dot v v)) v"

definition glm_radians :: "real \<Rightarrow> real" where
  "glm_radians degrees = degrees * (pi / 180)"

subsection \<open>GLFW input\<close>

datatype key =
  GLFW_KEY_W | GLFW_KEY_A | GLFW_KEY_S | GLFW_KEY_D
  | GLFW_KEY_0 | GLFW_KEY_1 | GLFW_KEY_2 | GLFW_KEY_3 | GLFW_KEY_4 | GLFW_KEY_5

datatype action = GLFW_RELEASE | GLFW_PRESS | GLFW_REPEAT

datatype mouse_button = GLFW_MOUSE_BUTTON_LEFT | GLFW_MOUSE_BUTTON_RIGHT | GLFW_MOUSE_BUTTON_MIDDLE

datatype cursor_mode = GLFW_CURSOR_NORMAL | GLFW_CURSOR_DISABLED

text \<open>
  What the program reads of the window in \<open>processInput\<close> is the set of keys that are down.
  \<open>glfwGetKey\<close> answers \<open>GLFW_PRESS\<close> or \<open>GLFW_RELEASE\<close>, never \<open>GLFW_REPEAT\<close>.
\<close>

type_synonym window = "key set"

definition glfwGetKey :: "window \<Rightarrow> key \<Rightarrow> action" where
  "glfwGetKey w k = (if k \<in> w then GLFW_PRESS else GLFW_RELEASE)"

subsection \<open>The global variables\<close>

datatype flag = ApplyTranslation | ApplyRotation | ApplyScaling | ApplyShearing | ApplyReflection

record state =
  cameraPos :: vec3
  cameraFront :: vec3
  cameraUp :: vec3
  yaw :: real
  pitch :: real
  lastX :: real
  lastY :: real
  firstMouse :: bool
  leftMousePressed :: bool
  deltaTime :: real
  lastFrame :: real
  applyTranslation :: bool
  applyRotation :: bool
  applyScaling :: bool
  applyShearing :: bool
  applyReflection :: bool
  keyStates :: "bool list"
  toggleStates :: "bool list"
  cursorMode :: cursor_mode
  viewport :: "int \<times> int"

definition SCR_WIDTH :: nat where
  "SCR_WIDTH = 800"

definition SCR_HEIGHT :: nat where
  "SCR_HEIGHT = 600"

text \<open>
  The initializers of lines 13 to 36. \<open>cursorMode\<close> and \<open>viewport\<close> are state of the window
  and of the GL context that the callbacks write; they start at GLFW's defaults.
\<close>

definition init_state :: state where
  "init_state = \<lparr>
     cameraPos = Vec3 0 0 3,
     cameraFront = Vec3 0 0 (-1),
     cameraUp = Vec3 0 1 0,
     yaw = -90,
     pitch = 0,
     lastX = real SCR_WIDTH / 2,
     lastY = real SCR_HEIGHT / 2,
     firstMouse = True,
     leftMousePressed = False,
     deltaTime = 0,
     lastFrame = 0,
     applyTranslation = False,
     applyRotation = False,
     applyScaling = False,
     applyShearing = False,
     applyReflection = False,
     keyStates = replicate 6 False,
     toggleStates = replicate 6 False,
     cursorMode = GLFW_CURSOR_NORMAL,
     viewport = (int SCR_WIDTH, int SCR_HEIGHT) \<rparr>"

text \<open>The arrays \<open>keyStates\<close> and \<open>toggleStates\<close> have six elements each.\<close>

definition wf_state :: "state \<Rightarrow> bool" where
  "wf_state s = (length (keyStates s) = 6 \<and> length (toggleStates s) = 6)"

subsection \<open>processInput\<close>

definition keys :: "key list" where
  "keys = [GLFW_KEY_1, GLFW_KEY_2, GLFW_KEY_3, GLFW_KEY_4, GLFW_KEY_5]"

definition flags :: "flag list" where
  "flags = [ApplyTranslation, ApplyRotation, ApplyScaling, ApplyShearing, ApplyReflection]"

text \<open>Writing and reading through one of the pointers of \<open>flags\<close>.\<close>

fun write_flag :: "flag \<Rightarrow> bool \<Rightarrow> state \<Rightarrow> state" where
  "write_flag ApplyTranslation v s = s\<lparr>applyTranslation := v\<rparr>"
| "write_flag ApplyRotation v s = s\<lparr>applyRotation := v\<rparr>"
| "write_flag ApplyScaling v s = s\<lparr>applyScaling := v\<rparr>"
| "write_flag ApplyShearing v s = s\<lparr>applyShearing := v\<rparr>"
| "write_flag ApplyReflection v s = s\<lparr>applyReflection := v\<rparr>"

fun read_flag :: "flag \<Rightarrow> state \<Rightarrow> bool" where
  "read_flag ApplyTranslation s = applyTranslation s"
| "read_flag ApplyRotation s = applyRotation s"
| "read_flag ApplyScaling s = applyScaling s"
| "read_flag ApplyShearing s = applyShearing s"
| "read_flag ApplyReflection s = applyReflection s"

text \<open>The four movement keys, lines 70 to 83.\<close>

definition move_camera :: "window \<Rightarrow> state \<Rightarrow> state" where
  "move_camera w s =
     (let cameraSpeed = 2.5 * deltaTime s;
          s1 = (if glfwGetKey w GLFW_KEY_W = GLFW_PRESS
                then s\<lparr>cameraPos := vadd (cameraPos s) (smul cameraSpeed (cameraFront s))\<rparr>
                else s);
          s2 = (if glfwGetKey w GLFW_KEY_S = GLFW_PRESS
                then s1\<lparr>cameraPos := vsub (cameraPos s1) (smul cameraSpeed (cameraFront s1))\<rparr>
                else s1);
          s3 = (if glfwGetKey w GLFW_KEY_A = GLFW_PRESS
                then s2\<lparr>cameraPos := vsub (cameraPos s2)
                       (smul cameraSpeed (glm_normalize (glm_cross (cameraFront s2) (cameraUp s2))))\<rparr>
                else s2);
          s4 = (if glfwGetKey w GLFW_KEY_D = GLFW_PRESS
                then s3\<lparr>cameraPos := vadd (cameraPos s3)
                       (smul cameraSpeed (glm_normalize (glm_cross (cameraFront s3) (cameraUp s3))))\<rparr>
                else s3)
      in s4)"

text \<open>The body of the loop of lines 89 to 100, for the index \<open>i\<close>.\<close>

definition toggle_key :: "window \<Rightarrow> nat \<Rightarrow> state \<Rightarrow> state" where
  "toggle_key w i s =
     (if glfwGetKey w (keys ! i) = GLFW_PRESS then
        (if \<not> keyStates s ! i then
           (let s1 = s\<lparr>toggleStates := (toggleStates s)[i := \<not> toggleStates s ! i]\<rparr>;
                s2 = write_flag (flags ! i) (toggleStates s1 ! i) s1
            in s2\<lparr>keyStates := (keyStates s2)[i := True]\<rparr>)
         else s)
      else s\<lparr>keyStates := (keyStates s)[i := False]\<rparr>)"

text \<open>The body of the loop of lines 104 to 107.\<close>

definition reset_toggle :: "nat \<Rightarrow> state \<Rightarrow> state" where
  "reset_toggle i s =
     write_flag (flags ! i) False (s\<lparr>toggleStates := (toggleStates s)[i := False]\<rparr>)"

definition processInput :: "window \<Rightarrow> state \<Rightarrow> state" where
  "processInput w s =
     (let s1 = move_camera w s;
          s2 = fold (toggle_key w) [0..<5] s1
      in if glfwGetKey w GLFW_KEY_0 = GLFW_PRESS then fold reset_toggle [0..<5] s2 else s2)"

subsection \<open>The callbacks\<close>

definition framebuffer_size_callback :: "int \<Rightarrow> int \<Rightarrow> state \<Rightarrow> state" where
  "framebuffer_size_callback width height s = s\<lparr>viewport := (width, height)\<rparr>"

definition mouse_button_callback :: "mouse_button \<Rightarrow> action \<Rightarrow> state \<Rightarrow> state" where
  "mouse_button_callback button act s =
     (if button = GLFW_MOUSE_BUTTON_LEFT then
        (if act = GLFW_PRESS then
           s\<lparr>cursorMode := GLFW_CURSOR_DISABLED, leftMousePressed := True\<rparr>
         else if act = GLFW_RELEASE then
           s\<lparr>cursorMode := GLFW_CURSOR_NORMAL, firstMouse := True, leftMousePressed := False\<rparr>
         else s)
      else s)"

definition mouse_callback :: "real \<Rightarrow> real \<Rightarrow> state \<Rightarrow> state" where
  "mouse_callback xpos ypos s =
     (if \<not> leftMousePressed s then s
      else
        (let s1 = (if firstMouse s
                   then s\<lparr>lastX := xpos, lastY := ypos, firstMouse := False\<rparr>
                   else s);
             xoffset = xpos - lastX s1;
             yoffset = lastY s1 - ypos;
             s2 = s1\<lparr>lastX := xpos, lastY := ypos\<rparr>;
             sensitivity = 0.1;
             xoffset = xoffset * sensitivity;
             yoffset = yoffset * sensitivity;
             s3 = s2\<lparr>yaw := yaw s2 + xoffset\<rparr>;
             s4 = s3\<lparr>pitch := pitch s3 + yoffset\<rparr>;
             s5 = (if pitch s4 > 89 then s4\<lparr>pitch := 89\<rparr> else s4);
             s6 = (if pitch s5 < -89 then s5\<lparr>pitch := -89\<rparr> else s5);
             front = Vec3 (cos (glm_radians (yaw s6)) * cos (glm_radians (pitch s6)))
                          (sin (glm_radians (pitch s6)))
                          (sin (glm_radians (yaw s6)) * cos (glm_radians (pitch s6)))
         in s6\<lparr>cameraFront := glm_normalize front\<rparr>))"

subsection \<open>main\<close>

text \<open>
  The array \<open>vertices\<close> of lines 200 to 216, float by float: six floats for each vertex
  (three of position, three of color), six vertices for each face.
\<close>

definition vertices :: "real list" where
  "vertices = [
     -0.5,-0.5,-0.5, 1,0,0,  0.5,-0.5,-0.5, 0,1,0,  0.5,0.5,-0.5, 0,0,1,
      0.5,0.5,-0.5, 0,0,1,  -0.5,0.5,-0.5, 1,1,0,  -0.5,-0.5,-0.5, 1,1,0,
     -0.5,-0.5,0.5, 1,0,0,  0.5,-0.5,0.5, 0,1,0,  0.5,0.5,0.5, 0,0,1,
      0.5,0.5,0.5, 0,0,1,  -0.5,0.5,0.5, 1,1,0,  -0.5,-0.5,0.5, 1,1,0,
     -0.5,0.5,0.5, 1,0,0,  -0.5,0.5,-0.5, 0,1,0,  -0.5,-0.5,-0.5, 0,0,1,
     -0.5,-0.5,-0.5, 0,0,1,  -0.5,-0.5,0.5, 1,1,0,  -0.5,0.5,0.5, 1,1,0,
      0.5,0.5,0.5, 1,0,0,  0.5,0.5,-0.5, 0,1,0,  0.5,-0.5,-0.5, 0,0,1,
      0.5,-0.5,-0.5, 0,0,1,  0.5,-0.5,0.5, 1,1,0,  0.5,0.5,0.5, 1,1,0,
     -0.5,-0.5,-0.5, 1,0,0,  0.5,-0.5,-0.5, 0,1,0,  0.5,-0.5,0.5, 0,0,1,
      0.5,-0.5,0.5, 0,0,1,  -0.5,-0.5,0.5, 1,1,0,  -0.5,-0.5,-0.5, 1,1,0]"

text \<open>
  The layout that \<open>glVertexAttribPointer\<close> declares (lines 227 and 231), in floats: a
  stride of six, three floats of position at offset 0 and three of color at offset 3.
  \<open>glBufferData\<close> uploads \<open>sizeof(vertices)\<close> bytes, that is the whole array.
\<close>

definition vertex_stride :: nat where
  "vertex_stride = 6"

definition position_size :: nat where
  "position_size = 3"

definition color_offset :: nat where
  "color_offset = 3"

definition color_size :: nat where
  "color_size = 3"

definition uploaded_vertices :: nat where
  "uploaded_vertices = length vertices div vertex_stride"

text \<open>The third argument of \<open>glDrawArrays(GL_TRIANGLES, 0, 36)\<close>, line 298.\<close>

definition glDrawArrays_count :: nat where
  "glDrawArrays_count = 36"

text \<open>
  \<open>glfwPollEvents\<close> runs the registered callbacks, on the thread of the loop, for the
  events that arrived.
\<close>

datatype event =
  CursorPos real real
  | MouseButton mouse_button action
  | FramebufferSize int int

fun dispatch :: "event \<Rightarrow> state \<Rightarrow> state" where
  "dispatch (CursorPos xpos ypos) s = mouse_callback xpos ypos s"
| "dispatch (MouseButton button act) s = mouse_button_callback button act s"
| "dispatch (FramebufferSize width height) s = framebuffer_size_callback width height s"

definition poll_events :: "event list \<Rightarrow> state \<Rightarrow> state" where
  "poll_events evs s = fold dispatch evs s"

text \<open>
  What the environment gives to one iteration of the render loop: the value of
  \<open>glfwGetTime\<close>, the keys that are down and the events that \<open>glfwPollEvents\<close> delivers.
  Drawing reads the globals and writes none of them.
\<close>

record frame =
  frame_time :: real
  frame_keys :: window
  frame_events :: "event list"

definition render_frame :: "frame \<Rightarrow> state \<Rightarrow> state" where
  "render_frame f s =
     (let currentFrame = frame_time f;
          s1 = s\<lparr>deltaTime := currentFrame - lastFrame s\<rparr>;
          s2 = s1\<lparr>lastFrame := currentFrame\<rparr>;
          s3 = processInput (frame_keys f) s2
      in poll_events (frame_events f) s3)"

text \<open>
  The environment of a run: whether \<open>glfwCreateWindow\<close> returns a window, whether
  \<open>gladLoadGLLoader\<close> succeeds, what \<open>glfwWindowShouldClose\<close> answers before the
  iteration \<open>n\<close>, and the frame the iteration \<open>n\<close> sees.
\<close>

record env =
  window_created :: bool
  glad_loaded :: bool
  should_close :: "nat \<Rightarrow> bool"
  frame_at :: "nat \<Rightarrow> frame"

text \<open>The render loop may run forever: it returns when a close request is seen.\<close>

partial_function (option) render_loop :: "env \<Rightarrow> nat \<Rightarrow> state \<Rightarrow> state option" where
  "render_loop e n s =
     (if should_close e n then Some s
      else render_loop e (Suc n) (render_frame (frame_at e n) s))"

text \<open>\<open>main\<close> returns its exit code and the lines written to \<open>std::cout\<close>.\<close>

definition main :: "env \<Rightarrow> (int \<times> string list) option" where
  "main e =
     (if \<not> window_created e then Some (-1, [''Failed to create GLFW window''])
      else if \<not> glad_loaded e then Some (-1, [''Failed to initialize GLAD''])
      else (case render_loop e 0 init_state of
              None \<Rightarrow> None
            | Some s \<Rightarrow> Some (0, [])))"

subsection \<open>Notions used in the statements\<close>

text \<open>A run of \<open>processInput\<close> over the key sets of consecutive frames.\<close>

definition run_frames :: "window list \<Rightarrow> state \<Rightarrow> state" where
  "run_frames ws s = fold processInput ws s"

text \<open>
  The discrete presses of one key: given whether the key was down before the first frame
  and whether it is down in each frame, the number of frames in which it is down while it
  was up in the frame before. A key that stays down over several frames is one press.
\<close>

fun press_count :: "bool \<Rightarrow> bool list \<Rightarrow> nat" where
  "press_count held [] = 0"
| "press_count held (down # rest) = (if down \<and> \<not> held then 1 else 0) + press_count down rest"

text \<open>
  What the program holds for the toggle \<open>i\<close>: the debounce flag \<open>keyStates[i]\<close>, the
  toggle \<open>toggleStates[i]\<close> and the global that \<open>flags[i]\<close> points to.
\<close>

definition slot :: "nat \<Rightarrow> state \<Rightarrow> bool \<times> bool \<times> bool" where
  "slot i s = (keyStates s ! i, toggleStates s ! i, read_flag (flags ! i) s)"

fun key_step :: "bool \<Rightarrow> bool \<times> bool \<times> bool \<Rightarrow> bool \<times> bool \<times> bool" where
  "key_step down (k, t, f) =
     (down, (if down \<and> \<not> k then \<not> t else t), (if down \<and> \<not> k then \<not> t else f))"

text \<open>The state after the left mouse button went down on the initial state.\<close>

definition captured_state :: state where
  "captured_state = mouse_button_callback GLFW_MOUSE_BUTTON_LEFT GLFW_PRESS init_state"

text \<open>
  A run in which no key is down and no event arrives, at sixty frames a second, and the
  close request arrives before the iteration \<open>k\<close>.
\<close>

definition idle_frame :: "nat \<Rightarrow> frame" where
  "idle_frame n = \<lparr>frame_time = real n / 60, frame_keys = {}, frame_events = []\<rparr>"

definition close_after :: "bool \<Rightarrow> bool \<Rightarrow> nat \<Rightarrow> env" where
  "close_after created loaded k =
     \<lparr>window_created = created, glad_loaded = loaded,
      should_close = (\<lambda>n. k \<le> n), frame_at = idle_frame\<rparr>"

text \<open>
  One iteration of the render loop in which the keys \<open>w\<close> are down, no event arrives and
  the clock has advanced by \<open>dt\<close> since the iteration before; and a run of such
  iterations, one for each step of the list.
\<close>

definition hold_frame :: "window \<Rightarrow> real \<Rightarrow> state \<Rightarrow> state" where
  "hold_frame w dt s =
     render_frame \<lparr>frame_time = lastFrame s + dt, frame_keys = w, frame_events = []\<rparr> s"

definition hold_key :: "window \<Rightarrow> real list \<Rightarrow> state \<Rightarrow> state" where
  "hold_key w dts s = fold (hold_frame w) dts s"

text \<open>The axis along which a movement key is expected to move the camera.\<close>

fun move_axis :: "key \<Rightarrow> state \<Rightarrow> vec3" where
  "move_axis GLFW_KEY_W s = cameraFront s"
| "move_axis GLFW_KEY_S s = smul (-1) (cameraFront s)"
| "move_axis GLFW_KEY_A s = smul (-1) (glm_normalize (glm_cross (cameraFront s) (cameraUp s)))"
| "move_axis GLFW_KEY_D s = glm_normalize (glm_cross (cameraFront s) (cameraUp s))"
| "move_axis k s = Vec3 0 0 0"

section \<open>Properties\<close>

subsection \<open>The toggle loop, index by index\<close>

lemma upt_5: "[0..<5] = [0, 1, 2, 3, 4]"
  by (simp add: upt_rec)

lemma less_5_cases: "i < 5 \<Longrightarrow> i = 0 \<or> i = 1 \<or> i = 2 \<or> i = 3 \<or> i = (4::nat)"
  by arith

lemma replicate_5: "replicate 5 x = [x, x, x, x, x]"
  by (simp add: numeral_eq_Suc)

lemma length_keys [simp]: "length keys = 5"
  by (simp add: keys_def)

lemma init_state_wf: "wf_state init_state"
  by (simp add: wf_state_def init_state_def)

lemma write_flag_arrays [simp]:
  "keyStates (write_flag f v s) = keyStates s"
  "toggleStates (write_flag f v s) = toggleStates s"
  by (cases f; simp)+

lemma write_flag_camera [simp]:
  "cameraPos (write_flag f v s) = cameraPos s"
  "cameraFront (write_flag f v s) = cameraFront s"
  "cameraUp (write_flag f v s) = cameraUp s"
  "deltaTime (write_flag f v s) = deltaTime s"
  by (cases f; simp)+

lemma read_write_flag [simp]:
  "read_flag f (write_flag g v s) = (if f = g then v else read_flag f s)"
  by (cases f; cases g; simp)

lemma read_flag_arrays [simp]:
  "read_flag f (s\<lparr>keyStates := ks\<rparr>) = read_flag f s"
  "read_flag f (s\<lparr>toggleStates := ts\<rparr>) = read_flag f s"
  "read_flag f (s\<lparr>cameraPos := p\<rparr>) = read_flag f s"
  by (cases f; simp)+

lemma flags_distinct: "i < 5 \<Longrightarrow> j < 5 \<Longrightarrow> (flags ! i = flags ! j) = (i = j)"
  using nth_eq_iff_index_eq [of flags i j] by (simp add: flags_def)

lemma apply_flags:
  "applyTranslation s = read_flag (flags ! 0) s"
  "applyRotation s = read_flag (flags ! 1) s"
  "applyScaling s = read_flag (flags ! 2) s"
  "applyShearing s = read_flag (flags ! 3) s"
  "applyReflection s = read_flag (flags ! 4) s"
  by (simp_all add: flags_def)

lemma toggle_key_wf [simp]: "wf_state (toggle_key w j s) = wf_state s"
  by (simp add: toggle_key_def wf_state_def Let_def)

lemma reset_toggle_wf [simp]: "wf_state (reset_toggle j s) = wf_state s"
  by (simp add: reset_toggle_def wf_state_def)

lemma keyStates_reset_toggle [simp]: "keyStates (reset_toggle j s) = keyStates s"
  by (simp add: reset_toggle_def)

lemma slot_toggle_key_other:
  "i < 5 \<Longrightarrow> j < 5 \<Longrightarrow> i \<noteq> j \<Longrightarrow> slot i (toggle_key w j s) = slot i s"
  by (simp add: slot_def toggle_key_def Let_def flags_distinct)

lemma slot_toggle_key_same:
  "j < 5 \<Longrightarrow> wf_state s \<Longrightarrow> slot j (toggle_key w j s) = key_step (keys ! j \<in> w) (slot j s)"
  by (simp add: slot_def toggle_key_def Let_def wf_state_def glfwGetKey_def)

lemma slot_reset_toggle_other:
  "i < 5 \<Longrightarrow> j < 5 \<Longrightarrow> i \<noteq> j \<Longrightarrow> slot i (reset_toggle j s) = slot i s"
  by (simp add: slot_def reset_toggle_def flags_distinct)

lemma slot_reset_toggle_same:
  "j < 5 \<Longrightarrow> wf_state s \<Longrightarrow> slot j (reset_toggle j s) = (keyStates s ! j, False, False)"
  by (simp add: slot_def reset_toggle_def wf_state_def)

lemma slot_toggle_loop:
  assumes "i < 5" and "wf_state s"
  shows "slot i (fold (toggle_key w) [0..<5] s) = key_step (keys ! i \<in> w) (slot i s)"
  using less_5_cases [OF assms(1)] assms(2)
  by (auto simp: upt_5 slot_toggle_key_other slot_toggle_key_same)

lemma slot_reset_loop:
  assumes "i < 5" and "wf_state s"
  shows "slot i (fold reset_toggle [0..<5] s) = (keyStates s ! i, False, False)"
  using less_5_cases [OF assms(1)] assms(2)
  by (auto simp: upt_5 slot_reset_toggle_other slot_reset_toggle_same)

lemma move_camera_slot [simp]: "slot i (move_camera w s) = slot i s"
  by (simp add: move_camera_def slot_def Let_def)

lemma move_camera_wf [simp]: "wf_state (move_camera w s) = wf_state s"
  by (simp add: move_camera_def wf_state_def Let_def)

lemma fold_toggle_key_wf [simp]: "wf_state (fold (toggle_key w) js s) = wf_state s"
  by (induction js arbitrary: s) simp_all

lemma fold_reset_toggle_wf [simp]: "wf_state (fold reset_toggle js s) = wf_state s"
  by (induction js arbitrary: s) simp_all

lemma processInput_wf [simp]: "wf_state (processInput w s) = wf_state s"
  by (simp add: processInput_def Let_def)

lemma slot_processInput:
  assumes "i < 5" and "wf_state s"
  shows "slot i (processInput w s) =
           (if GLFW_KEY_0 \<in> w then (keys ! i \<in> w, False, False)
            else key_step (keys ! i \<in> w) (slot i s))"
proof -
  let ?s2 = "fold (toggle_key w) [0..<5] (move_camera w s)"
  have s2: "slot i ?s2 = key_step (keys ! i \<in> w) (slot i s)"
    using assms by (simp add: slot_toggle_loop)
  have k: "keyStates ?s2 ! i = (keys ! i \<in> w)"
    using s2 by (cases "slot i s") (simp add: slot_def)
  show ?thesis
    using assms s2 k by (simp add: processInput_def Let_def glfwGetKey_def slot_reset_loop)
qed

lemma slot_keyStates: "keyStates s ! i = fst (slot i s)"
  by (simp add: slot_def)

lemma slot_toggleStates: "toggleStates s ! i = fst (snd (slot i s))"
  by (simp add: slot_def)

lemma slot_read_flag: "read_flag (flags ! i) s = snd (snd (slot i s))"
  by (simp add: slot_def)

lemma keyStates_processInput:
  "i < 5 \<Longrightarrow> wf_state s \<Longrightarrow> keyStates (processInput w s) ! i = (keys ! i \<in> w)"
  by (cases "slot i s") (simp add: slot_keyStates slot_processInput)

lemma toggleStates_processInput:
  "i < 5 \<Longrightarrow> wf_state s \<Longrightarrow>
   toggleStates (processInput w s) ! i =
     (if GLFW_KEY_0 \<in> w then False
      else if keys ! i \<in> w \<and> \<not> keyStates s ! i then \<not> toggleStates s ! i
      else toggleStates s ! i)"
  by (cases "slot i s") (simp add: slot_keyStates slot_toggleStates slot_processInput)

lemma read_flag_processInput:
  "i < 5 \<Longrightarrow> wf_state s \<Longrightarrow>
   read_flag (flags ! i) (processInput w s) =
     (if GLFW_KEY_0 \<in> w then False
      else if keys ! i \<in> w \<and> \<not> keyStates s ! i then \<not> toggleStates s ! i
      else read_flag (flags ! i) s)"
  by (cases "slot i s")
     (simp add: slot_keyStates slot_toggleStates slot_read_flag slot_processInput)

lemma take_5_eqI:
  assumes "length xs = 6" and "length ys = 5" and "\<And>i. i < 5 \<Longrightarrow> xs ! i = ys ! i"
  shows "take 5 xs = ys"
  using assms by (intro nth_equalityI) simp_all

lemma take_5_keyStates:
  assumes "wf_state s"
  shows "take 5 (keyStates (processInput w s)) = map (\<lambda>k. k \<in> w) keys"
proof (rule take_5_eqI)
  show "length (keyStates (processInput w s)) = 6"
    using assms processInput_wf [of w s] by (simp add: wf_state_def)
  show "length (map (\<lambda>k. k \<in> w) keys) = 5"
    by simp
  show "keyStates (processInput w s) ! i = map (\<lambda>k. k \<in> w) keys ! i" if "i < 5" for i
    using that assms by (simp add: keyStates_processInput)
qed

lemma take_5_toggleStates_reset:
  assumes "GLFW_KEY_0 \<in> w" and "wf_state s"
  shows "take 5 (toggleStates (processInput w s)) = replicate 5 False"
proof (rule take_5_eqI)
  show "length (toggleStates (processInput w s)) = 6"
    using assms processInput_wf [of w s] by (simp add: wf_state_def)
  show "length (replicate 5 False) = 5"
    by simp
  show "toggleStates (processInput w s) ! i = replicate 5 False ! i" if "i < 5" for i
    using that assms by (simp add: toggleStates_processInput)
qed

subsection \<open>The mesh and the draw call\<close>

lemma vertices_length: "length vertices = 180"
  by (simp add: vertices_def)

text \<open>
  C1. The claim is that the vertex array holds the 36 vertices of a cube, the count that
  the draw call passes. The array has five faces (back, front, left, right, bottom) of
  six vertices, six floats each: the top face is missing. So 30 vertices are uploaded
  while \<open>glDrawArrays\<close> is asked to draw 36.
\<close>

theorem vertices_draw_mismatch:
  "length vertices = 5 * 6 * vertex_stride
   \<and> position_size + color_size = vertex_stride
   \<and> uploaded_vertices = 30
   \<and> glDrawArrays_count = 36
   \<and> uploaded_vertices < glDrawArrays_count"
  by (simp add: uploaded_vertices_def vertex_stride_def position_size_def color_size_def
      glDrawArrays_count_def vertices_length)

subsection \<open>The reset key\<close>

text \<open>
  C2, as amended. In a frame in which the reset key is down, whatever the state before,
  the five toggles end false, in \<open>toggleStates\<close> and in the five globals. The reset does
  not touch the debounce flags: after the frame each of them says whether its own key is
  down in that frame.
\<close>

theorem reset_clears_toggles:
  assumes "GLFW_KEY_0 \<in> w" and "wf_state s"
  shows "take 5 (toggleStates (processInput w s)) = replicate 5 False
       \<and> \<not> applyTranslation (processInput w s) \<and> \<not> applyRotation (processInput w s)
       \<and> \<not> applyScaling (processInput w s) \<and> \<not> applyShearing (processInput w s)
       \<and> \<not> applyReflection (processInput w s)
       \<and> take 5 (keyStates (processInput w s)) = map (\<lambda>k. k \<in> w) keys"
  using assms
  by (simp add: take_5_toggleStates_reset take_5_keyStates apply_flags read_flag_processInput)

theorem reset_clears_toggles_witness:
  "GLFW_KEY_0 \<in> {GLFW_KEY_0, GLFW_KEY_1} \<and> wf_state init_state
   \<and> take 5 (toggleStates (processInput {GLFW_KEY_0, GLFW_KEY_1} init_state)) = replicate 5 False
   \<and> \<not> applyTranslation (processInput {GLFW_KEY_0, GLFW_KEY_1} init_state)
   \<and> take 5 (keyStates (processInput {GLFW_KEY_0, GLFW_KEY_1} init_state))
       = [True, False, False, False, False]"
  using reset_clears_toggles [of "{GLFW_KEY_0, GLFW_KEY_1}" init_state] init_state_wf
  by (simp add: keys_def)

text \<open>
  C2 as it is stated fails: with the keys 0 and 1 down in the first frame, the debounce
  flag of the key 1 is set after the frame, not cleared.
\<close>

theorem reset_debounce_counterexample:
  "GLFW_KEY_0 \<in> {GLFW_KEY_0, GLFW_KEY_1}
   \<and> take 5 (keyStates (processInput {GLFW_KEY_0, GLFW_KEY_1} init_state))
       = [True, False, False, False, False]
   \<and> take 5 (keyStates (processInput {GLFW_KEY_0, GLFW_KEY_1} init_state)) \<noteq> replicate 5 False"
  by (simp add: take_5_keyStates init_state_wf keys_def replicate_5)

text \<open>
  C10. With the reset key down, \<open>processInput\<close> is the reset loop run on the result of
  the toggle loop, so the five toggles end the frame false whatever the toggle keys did.
  The debounce flag of every toggle key that is down in the frame is set after it, and
  so, whatever the keys of the next frame, a toggle whose key is still down then stays
  false.
\<close>

theorem reset_after_toggles:
  assumes "GLFW_KEY_0 \<in> w" and "wf_state s"
  shows "fold reset_toggle [0..<5] (fold (toggle_key w) [0..<5] (move_camera w s)) = processInput w s
       \<and> take 5 (toggleStates (processInput w s)) = replicate 5 False
       \<and> \<not> applyTranslation (processInput w s) \<and> \<not> applyRotation (processInput w s)
       \<and> \<not> applyScaling (processInput w s) \<and> \<not> applyShearing (processInput w s)
       \<and> \<not> applyReflection (processInput w s)
       \<and> (i < 5 \<and> keys ! i \<in> w \<longrightarrow>
            keyStates (processInput w s) ! i
            \<and> (keys ! i \<in> w' \<longrightarrow>
                 \<not> toggleStates (processInput w' (processInput w s)) ! i
                 \<and> \<not> read_flag (flags ! i) (processInput w' (processInput w s))))"
proof -
  have order: "fold reset_toggle [0..<5] (fold (toggle_key w) [0..<5] (move_camera w s))
      = processInput w s"
    using assms(1) by (simp add: processInput_def Let_def glfwGetKey_def)
  have cleared: "take 5 (toggleStates (processInput w s)) = replicate 5 False
       \<and> \<not> applyTranslation (processInput w s) \<and> \<not> applyRotation (processInput w s)
       \<and> \<not> applyScaling (processInput w s) \<and> \<not> applyShearing (processInput w s)
       \<and> \<not> applyReflection (processInput w s)"
    using assms by (simp add: take_5_toggleStates_reset apply_flags read_flag_processInput)
  have held: "keyStates (processInput w s) ! i
            \<and> (keys ! i \<in> w' \<longrightarrow>
                 \<not> toggleStates (processInput w' (processInput w s)) ! i
                 \<and> \<not> read_flag (flags ! i) (processInput w' (processInput w s)))"
    if i: "i < 5" and down: "keys ! i \<in> w"
  proof -
    have k: "keyStates (processInput w s) ! i"
      using i down assms(2) by (simp add: keyStates_processInput)
    have t: "\<not> toggleStates (processInput w s) ! i"
      using i assms by (simp add: toggleStates_processInput)
    have f: "\<not> read_flag (flags ! i) (processInput w s)"
      using i assms by (simp add: read_flag_processInput)
    show ?thesis
      using i k t f assms(2) by (simp add: toggleStates_processInput read_flag_processInput)
  qed
  show ?thesis using order cleared held by blast
qed

theorem reset_after_toggles_witness:
  "GLFW_KEY_0 \<in> {GLFW_KEY_0, GLFW_KEY_2} \<and> wf_state init_state \<and> (1::nat) < 5
   \<and> keys ! 1 \<in> {GLFW_KEY_0, GLFW_KEY_2} \<and> keys ! 1 \<in> {GLFW_KEY_2}
   \<and> take 5 (toggleStates (processInput {GLFW_KEY_0, GLFW_KEY_2} init_state)) = replicate 5 False
   \<and> \<not> applyRotation (processInput {GLFW_KEY_0, GLFW_KEY_2} init_state)
   \<and> keyStates (processInput {GLFW_KEY_0, GLFW_KEY_2} init_state) ! 1
   \<and> \<not> toggleStates (processInput {GLFW_KEY_2} (processInput {GLFW_KEY_0, GLFW_KEY_2} init_state)) ! 1"
  using reset_after_toggles [of "{GLFW_KEY_0, GLFW_KEY_2}" init_state 1 "{GLFW_KEY_2}"] init_state_wf
  by (simp add: keys_def)

subsection \<open>The mouse\<close>

lemma pitch_mouse_callback:
  "-89 \<le> pitch s \<and> pitch s \<le> 89 \<Longrightarrow>
   -89 \<le> pitch (mouse_callback xpos ypos s) \<and> pitch (mouse_callback xpos ypos s) \<le> 89"
  by (simp add: mouse_callback_def Let_def)

lemma pitch_dispatch:
  "-89 \<le> pitch s \<and> pitch s \<le> 89 \<Longrightarrow>
   -89 \<le> pitch (dispatch ev s) \<and> pitch (dispatch ev s) \<le> 89"
  by (cases ev)
     (simp_all add: pitch_mouse_callback mouse_button_callback_def framebuffer_size_callback_def)

lemma pitch_poll_events:
  "-89 \<le> pitch s \<and> pitch s \<le> 89 \<Longrightarrow>
   -89 \<le> pitch (poll_events evs s) \<and> pitch (poll_events evs s) \<le> 89"
  unfolding poll_events_def
proof (induction evs arbitrary: s)
  case Nil
  then show ?case by simp
next
  case (Cons ev evs)
  have "-89 \<le> pitch (dispatch ev s) \<and> pitch (dispatch ev s) \<le> 89"
    using Cons.prems by (rule pitch_dispatch)
  then show ?case using Cons.IH by simp
qed

text \<open>
  C3. From the initial state, where the pitch is 0, after any sequence of events (mouse
  moves, and the button events that start and end the capture between them) the pitch is
  between -89 and 89 degrees. Every prefix of a sequence is a sequence, so this is the
  pitch after each event.
\<close>

theorem pitch_clamped:
  "-89 \<le> pitch (poll_events evs init_state) \<and> pitch (poll_events evs init_state) \<le> 89"
  by (rule pitch_poll_events) (simp add: init_state_def)

lemma unit_sphere:
  fixes ca sa cb sb :: real
  assumes "ca * ca + sa * sa = 1" and "cb * cb + sb * sb = 1"
  shows "(ca * cb) * (ca * cb) + sb * sb + (sa * cb) * (sa * cb) = 1"
proof -
  have "(ca * cb) * (ca * cb) + sb * sb + (sa * cb) * (sa * cb)
        = (ca * ca + sa * sa) * (cb * cb) + sb * sb"
    by (simp add: algebra_simps)
  then show ?thesis using assms by simp
qed

lemma cos_sin_unit: "cos a * cos a + sin a * sin a = (1::real)"
  using sin_cos_squared_add2 [of a] by (simp add: power2_eq_square)

lemma front_dot:
  "glm_dot (Vec3 (cos a * cos b) (sin b) (sin a * cos b))
           (Vec3 (cos a * cos b) (sin b) (sin a * cos b)) = 1"
  using unit_sphere [OF cos_sin_unit [of a] cos_sin_unit [of b]] by simp

lemma normalize_unit: "glm_dot v v = 1 \<Longrightarrow> glm_normalize v = v"
  by (cases v) (simp add: glm_normalize_def)

lemma length_normalize_unit: "glm_dot v v = 1 \<Longrightarrow> glm_length (glm_normalize v) = 1"
  by (simp add: normalize_unit glm_length_def)

lemma cameraFront_mouse_callback:
  "leftMousePressed s \<Longrightarrow>
   cameraFront (mouse_callback xpos ypos s) =
     glm_normalize (Vec3 (cos (glm_radians (yaw (mouse_callback xpos ypos s)))
                            * cos (glm_radians (pitch (mouse_callback xpos ypos s))))
                         (sin (glm_radians (pitch (mouse_callback xpos ypos s))))
                         (sin (glm_radians (yaw (mouse_callback xpos ypos s)))
                            * cos (glm_radians (pitch (mouse_callback xpos ypos s)))))"
  by (simp add: mouse_callback_def Let_def)

lemma captured_state_pressed: "leftMousePressed captured_state"
  by (simp add: captured_state_def mouse_button_callback_def)

text \<open>
  C4. A mouse move that arrives while the left button is down leaves the front vector
  equal to the normalized vector of the new yaw and pitch, and its length is 1 (exactly,
  the arithmetic being that of the reals).
\<close>

theorem front_unit:
  assumes "leftMousePressed s"
  shows "cameraFront (mouse_callback xpos ypos s) =
           glm_normalize (Vec3 (cos (glm_radians (yaw (mouse_callback xpos ypos s)))
                                  * cos (glm_radians (pitch (mouse_callback xpos ypos s))))
                               (sin (glm_radians (pitch (mouse_callback xpos ypos s))))
                               (sin (glm_radians (yaw (mouse_callback xpos ypos s)))
                                  * cos (glm_radians (pitch (mouse_callback xpos ypos s)))))
         \<and> glm_length (cameraFront (mouse_callback xpos ypos s)) = 1"
proof
  show front: "cameraFront (mouse_callback xpos ypos s) =
           glm_normalize (Vec3 (cos (glm_radians (yaw (mouse_callback xpos ypos s)))
                                  * cos (glm_radians (pitch (mouse_callback xpos ypos s))))
                               (sin (glm_radians (pitch (mouse_callback xpos ypos s))))
                               (sin (glm_radians (yaw (mouse_callback xpos ypos s)))
                                  * cos (glm_radians (pitch (mouse_callback xpos ypos s)))))"
    using assms by (rule cameraFront_mouse_callback)
  show "glm_length (cameraFront (mouse_callback xpos ypos s)) = 1"
    by (subst front) (rule length_normalize_unit [OF front_dot])
qed

theorem front_unit_witness:
  "leftMousePressed captured_state
   \<and> glm_length (cameraFront (mouse_callback 410 300 captured_state)) = 1"
  using front_unit [OF captured_state_pressed, of 410 300] captured_state_pressed
  by blast

text \<open>
  C7. In a state in which the capture has just started (the button is down and the
  baseline is pending), with a yaw of -90 and a pitch of 0, whatever the recorded cursor
  position: the sample at (400, 300) leaves yaw and pitch as they are, and the sample at
  (410, 300) after it makes the yaw -89 and leaves the pitch 0.
\<close>

theorem first_sample:
  assumes "leftMousePressed s" and "firstMouse s" and "yaw s = -90" and "pitch s = 0"
  shows "yaw (mouse_callback 400 300 s) = -90 \<and> pitch (mouse_callback 400 300 s) = 0
       \<and> yaw (mouse_callback 410 300 (mouse_callback 400 300 s)) = -89
       \<and> pitch (mouse_callback 410 300 (mouse_callback 400 300 s)) = 0"
  using assms by (simp add: mouse_callback_def Let_def)

theorem first_sample_witness:
  "leftMousePressed captured_state \<and> firstMouse captured_state
   \<and> yaw captured_state = -90 \<and> pitch captured_state = 0
   \<and> yaw (mouse_callback 410 300 (mouse_callback 400 300 captured_state)) = -89
   \<and> pitch (mouse_callback 410 300 (mouse_callback 400 300 captured_state)) = 0"
  using first_sample [of captured_state]
  by (simp add: captured_state_def mouse_button_callback_def init_state_def)

text \<open>
  C9. A mouse move that arrives while the left button is not down changes nothing: the
  state after the callback is the state before it, and so are the yaw, the pitch, the
  front vector and the recorded cursor position. The release of the left button leaves
  such a state, whatever the state before it.
\<close>

theorem mouse_callback_ignored:
  assumes "\<not> leftMousePressed s"
  shows "mouse_callback xpos ypos s = s
       \<and> yaw (mouse_callback xpos ypos s) = yaw s
       \<and> pitch (mouse_callback xpos ypos s) = pitch s
       \<and> cameraFront (mouse_callback xpos ypos s) = cameraFront s
       \<and> lastX (mouse_callback xpos ypos s) = lastX s
       \<and> lastY (mouse_callback xpos ypos s) = lastY s
       \<and> mouse_callback xpos ypos (mouse_button_callback GLFW_MOUSE_BUTTON_LEFT GLFW_RELEASE s')
           = mouse_button_callback GLFW_MOUSE_BUTTON_LEFT GLFW_RELEASE s'"
  using assms by (simp add: mouse_callback_def mouse_button_callback_def)

theorem mouse_callback_ignored_witness:
  "\<not> leftMousePressed init_state \<and> mouse_callback 410 300 init_state = init_state"
  using mouse_callback_ignored [of init_state 410 300]
  by (simp add: init_state_def)

subsection \<open>The exit code\<close>

lemma render_loop_returns:
  "should_close e (n + k) \<Longrightarrow> \<exists>s'. render_loop e n s = Some s'"
proof (induction k arbitrary: n s)
  case 0
  then show ?case by (subst render_loop.simps) simp
next
  case (Suc k)
  then have "should_close e (Suc n + k)" by simp
  then obtain s' where "render_loop e (Suc n) (render_frame (frame_at e n) s) = Some s'"
    using Suc.IH by blast
  then show ?case by (subst render_loop.simps) simp
qed

text \<open>
  C8. When no window is created, \<open>main\<close> returns -1 after printing its message; when the
  window is created and the loader fails, it returns -1 after printing the other message;
  when both succeed and a close request arrives at some iteration, the loop ends and
  \<open>main\<close> returns 0, having printed nothing.
\<close>

theorem main_exit_code:
  "(\<not> window_created e \<longrightarrow> main e = Some (-1, [''Failed to create GLFW window'']))
   \<and> (window_created e \<and> \<not> glad_loaded e \<longrightarrow>
        main e = Some (-1, [''Failed to initialize GLAD'']))
   \<and> (window_created e \<and> glad_loaded e \<and> should_close e n \<longrightarrow> main e = Some (0, []))"
proof -
  have "main e = Some (0, [])"
    if w: "window_created e" and g: "glad_loaded e" and c: "should_close e n"
  proof -
    obtain s' where "render_loop e 0 init_state = Some s'"
      using render_loop_returns [of e 0 n init_state] c by auto
    then show ?thesis using w g by (simp add: main_def)
  qed
  then show ?thesis by (auto simp: main_def)
qed

theorem main_exit_code_witness:
  "main (close_after False True 2) = Some (-1, [''Failed to create GLFW window''])
   \<and> main (close_after True False 2) = Some (-1, [''Failed to initialize GLAD''])
   \<and> should_close (close_after True True 2) 2
   \<and> main (close_after True True 2) = Some (0, [])"
  using main_exit_code [of "close_after False True 2" 2]
        main_exit_code [of "close_after True False 2" 2]
        main_exit_code [of "close_after True True 2" 2]
  by (simp add: close_after_def)

subsection \<open>The toggle keys\<close>

lemma run_frames_Cons [simp]: "run_frames (w # ws) s = run_frames ws (processInput w s)"
  by (simp add: run_frames_def)

lemma run_frames_Nil [simp]: "run_frames [] s = s"
  by (simp add: run_frames_def)

lemma run_frames_wf [simp]: "wf_state (run_frames ws s) = wf_state s"
  by (induction ws arbitrary: s) simp_all

lemma toggle_run_frames:
  assumes "i < 5" and "wf_state s" and "\<forall>w \<in> set ws. GLFW_KEY_0 \<notin> w"
  shows "toggleStates (run_frames ws s) ! i =
           (toggleStates s ! i \<noteq> odd (press_count (keyStates s ! i) (map (\<lambda>w. keys ! i \<in> w) ws)))"
  using assms(2,3)
proof (induction ws arbitrary: s)
  case Nil
  then show ?case by simp
next
  case (Cons w ws)
  have wf: "wf_state (processInput w s)"
    using Cons.prems(1) by simp
  have no: "\<forall>w \<in> set ws. GLFW_KEY_0 \<notin> w" and now: "GLFW_KEY_0 \<notin> w"
    using Cons.prems(2) by simp_all
  show ?case
    using Cons.IH [OF wf no] now assms(1) Cons.prems(1)
    by (cases "keys ! i \<in> w"; cases "keyStates s ! i"; cases "toggleStates s ! i";
        simp add: keyStates_processInput toggleStates_processInput)
qed

lemma read_flag_run_frames:
  assumes "i < 5" and "wf_state s" and "\<forall>w \<in> set ws. GLFW_KEY_0 \<notin> w"
    and "read_flag (flags ! i) s = toggleStates s ! i"
  shows "read_flag (flags ! i) (run_frames ws s) = toggleStates (run_frames ws s) ! i"
  using assms(2,3,4)
proof (induction ws arbitrary: s)
  case Nil
  then show ?case by simp
next
  case (Cons w ws)
  have wf: "wf_state (processInput w s)"
    using Cons.prems(1) by simp
  have no: "\<forall>w \<in> set ws. GLFW_KEY_0 \<notin> w" and now: "GLFW_KEY_0 \<notin> w"
    using Cons.prems(2) by simp_all
  have eq: "read_flag (flags ! i) (processInput w s) = toggleStates (processInput w s) ! i"
    using assms(1) Cons.prems(1,3) by (simp add: read_flag_processInput toggleStates_processInput)
  show ?case
    using Cons.IH [OF wf no eq] by simp
qed

lemma held_run_frames:
  assumes "i < 5" and "wf_state s" and "keyStates s ! i"
    and "\<forall>w \<in> set ws. keys ! i \<in> w \<and> GLFW_KEY_0 \<notin> w"
  shows "toggleStates (run_frames ws s) ! i = toggleStates s ! i
       \<and> read_flag (flags ! i) (run_frames ws s) = read_flag (flags ! i) s"
  using assms(2,3,4)
proof (induction ws arbitrary: s)
  case Nil
  then show ?case by simp
next
  case (Cons w ws)
  have wf: "wf_state (processInput w s)"
    using Cons.prems(1) by simp
  have k: "keyStates (processInput w s) ! i"
    using assms(1) Cons.prems by (simp add: keyStates_processInput)
  have rest: "\<forall>w \<in> set ws. keys ! i \<in> w \<and> GLFW_KEY_0 \<notin> w"
    using Cons.prems(3) by simp
  have step: "toggleStates (processInput w s) ! i = toggleStates s ! i
       \<and> read_flag (flags ! i) (processInput w s) = read_flag (flags ! i) s"
    using assms(1) Cons.prems by (simp add: toggleStates_processInput read_flag_processInput)
  show ?case
    using Cons.IH [OF wf k rest] step by simp
qed

lemma press_count_released: "press_count held (replicate r False) = 0"
  by (induction r arbitrary: held) simp_all

lemma press_count_hold:
  "press_count held (replicate h b @ replicate r False) = (if b \<and> 0 < h \<and> \<not> held then 1 else 0)"
proof (induction h arbitrary: held)
  case 0
  then show ?case by (simp add: press_count_released)
next
  case (Suc h)
  then show ?case by simp
qed

lemma keys_nth_2: "i < 5 \<Longrightarrow> (keys ! i = GLFW_KEY_2) = (i = 1)"
  using less_5_cases [of i] by (auto simp: keys_def)

lemma key_2_frames:
  "i < 5 \<Longrightarrow>
   map (\<lambda>w. keys ! i \<in> w) (replicate h {GLFW_KEY_2} @ replicate r {})
     = replicate h (i = 1) @ replicate r False"
  by (simp add: keys_nth_2)

lemma init_state_slots:
  "i < 5 \<Longrightarrow> \<not> keyStates init_state ! i"
  "i < 5 \<Longrightarrow> \<not> toggleStates init_state ! i"
  "i < 5 \<Longrightarrow> \<not> read_flag (flags ! i) init_state"
proof -
  show "i < 5 \<Longrightarrow> \<not> keyStates init_state ! i" by (simp add: init_state_def)
  show "i < 5 \<Longrightarrow> \<not> toggleStates init_state ! i" by (simp add: init_state_def)
  show "i < 5 \<Longrightarrow> \<not> read_flag (flags ! i) init_state"
    using less_5_cases [of i] by (auto simp: flags_def init_state_def)
qed

lemma key_2_toggles:
  assumes "i < 5"
  shows "toggleStates (run_frames (replicate h {GLFW_KEY_2} @ replicate r {}) init_state) ! i
           = (i = 1 \<and> 0 < h)"
    and "read_flag (flags ! i) (run_frames (replicate h {GLFW_KEY_2} @ replicate r {}) init_state)
           = (i = 1 \<and> 0 < h)"
proof -
  let ?ws = "replicate h {GLFW_KEY_2} @ replicate r {}"
  have no: "\<forall>w \<in> set ?ws. GLFW_KEY_0 \<notin> w"
    by auto
  show t: "toggleStates (run_frames ?ws init_state) ! i = (i = 1 \<and> 0 < h)"
    using toggle_run_frames [OF assms init_state_wf no] assms
    by (simp only: key_2_frames press_count_hold init_state_slots) auto
  have "read_flag (flags ! i) init_state = toggleStates init_state ! i"
    using assms by (simp add: init_state_slots)
  then show "read_flag (flags ! i) (run_frames ?ws init_state) = (i = 1 \<and> 0 < h)"
    using read_flag_run_frames [OF assms init_state_wf no] t by simp
qed


text \<open>
  C5. Take a toggle \<open>i\<close> that is false, with its key up, and any run of frames without
  the reset key, whatever the other keys do: afterwards the toggle, in \<open>toggleStates\<close>
  and in its global, is true exactly when the key \<open>i\<close> was pressed an odd number of
  times, a press being a frame in which the key is down after a frame in which it was up.
  From the initial state, the key 2 held for \<open>h > 0\<close> frames and released for \<open>r\<close>
  frames leaves the rotation toggle true and the other four false. And once a key \<open>j\<close>
  is down, the frames in which it stays down (without the reset key) leave its toggle as
  the first of these frames left it.
\<close>

theorem toggle_presses:
  "(i < 5 \<and> wf_state s \<and> \<not> keyStates s ! i \<and> \<not> toggleStates s ! i
      \<and> \<not> read_flag (flags ! i) s \<and> (\<forall>w \<in> set ws. GLFW_KEY_0 \<notin> w) \<longrightarrow>
        toggleStates (run_frames ws s) ! i = odd (press_count False (map (\<lambda>w. keys ! i \<in> w) ws))
      \<and> read_flag (flags ! i) (run_frames ws s)
           = odd (press_count False (map (\<lambda>w. keys ! i \<in> w) ws)))
   \<and> (0 < h \<longrightarrow>
        take 5 (toggleStates (run_frames (replicate h {GLFW_KEY_2} @ replicate r {}) init_state))
          = [False, True, False, False, False]
      \<and> applyRotation (run_frames (replicate h {GLFW_KEY_2} @ replicate r {}) init_state)
      \<and> \<not> applyTranslation (run_frames (replicate h {GLFW_KEY_2} @ replicate r {}) init_state)
      \<and> \<not> applyScaling (run_frames (replicate h {GLFW_KEY_2} @ replicate r {}) init_state)
      \<and> \<not> applyShearing (run_frames (replicate h {GLFW_KEY_2} @ replicate r {}) init_state)
      \<and> \<not> applyReflection (run_frames (replicate h {GLFW_KEY_2} @ replicate r {}) init_state))
   \<and> (j < 5 \<and> wf_state s' \<and> keys ! j \<in> w'
        \<and> (\<forall>w \<in> set ws'. keys ! j \<in> w \<and> GLFW_KEY_0 \<notin> w) \<longrightarrow>
        toggleStates (run_frames (w' # ws') s') ! j = toggleStates (processInput w' s') ! j
      \<and> read_flag (flags ! j) (run_frames (w' # ws') s')
           = read_flag (flags ! j) (processInput w' s'))"
proof -
  have parity: "toggleStates (run_frames ws s) ! i
                  = odd (press_count False (map (\<lambda>w. keys ! i \<in> w) ws))
      \<and> read_flag (flags ! i) (run_frames ws s)
           = odd (press_count False (map (\<lambda>w. keys ! i \<in> w) ws))"
    if i: "i < 5" and wf: "wf_state s" and k: "\<not> keyStates s ! i" and t: "\<not> toggleStates s ! i"
      and f: "\<not> read_flag (flags ! i) s" and no: "\<forall>w \<in> set ws. GLFW_KEY_0 \<notin> w"
  proof -
    have a: "toggleStates (run_frames ws s) ! i
               = odd (press_count False (map (\<lambda>w. keys ! i \<in> w) ws))"
      using toggle_run_frames [OF i wf no] k t by simp
    have "read_flag (flags ! i) s = toggleStates s ! i"
      using t f by simp
    then have "read_flag (flags ! i) (run_frames ws s) = toggleStates (run_frames ws s) ! i"
      using read_flag_run_frames [OF i wf no] by simp
    then show ?thesis using a by simp
  qed
  let ?s2 = "run_frames (replicate h {GLFW_KEY_2} @ replicate r {}) init_state"
  have single: "take 5 (toggleStates ?s2) = [False, True, False, False, False]
      \<and> applyRotation ?s2 \<and> \<not> applyTranslation ?s2 \<and> \<not> applyScaling ?s2
      \<and> \<not> applyShearing ?s2 \<and> \<not> applyReflection ?s2"
    if h: "0 < h"
  proof -
    have "take 5 (toggleStates ?s2) = [False, True, False, False, False]"
    proof (rule take_5_eqI)
      show "length (toggleStates ?s2) = 6"
        using init_state_wf run_frames_wf [of "replicate h {GLFW_KEY_2} @ replicate r {}" init_state]
        by (simp add: wf_state_def)
      show "length [False, True, False, False, False] = 5"
        by simp
      show "toggleStates ?s2 ! n = [False, True, False, False, False] ! n" if "n < 5" for n
        using less_5_cases [OF that] h by (auto simp: key_2_toggles)
    qed
    then show ?thesis using h by (simp add: apply_flags key_2_toggles)
  qed
  have held: "toggleStates (run_frames (w' # ws') s') ! j = toggleStates (processInput w' s') ! j
      \<and> read_flag (flags ! j) (run_frames (w' # ws') s')
           = read_flag (flags ! j) (processInput w' s')"
    if j: "j < 5" and wf: "wf_state s'" and down: "keys ! j \<in> w'"
      and rest: "\<forall>w \<in> set ws'. keys ! j \<in> w \<and> GLFW_KEY_0 \<notin> w"
  proof -
    have wf1: "wf_state (processInput w' s')"
      using wf by simp
    have k: "keyStates (processInput w' s') ! j"
      using j wf down by (simp add: keyStates_processInput)
    show ?thesis
      using held_run_frames [OF j wf1 k rest] by simp
  qed
  show ?thesis using parity single held by blast
qed

theorem toggle_presses_witness:
  "(1::nat) < 5 \<and> wf_state init_state \<and> \<not> keyStates init_state ! 1
   \<and> \<not> toggleStates init_state ! 1 \<and> \<not> read_flag (flags ! 1) init_state
   \<and> press_count False (map (\<lambda>w. keys ! 1 \<in> w) [{GLFW_KEY_2}, {GLFW_KEY_2}, {}, {GLFW_KEY_2}, {}, {GLFW_KEY_2, GLFW_KEY_W}]) = 3
   \<and> toggleStates (run_frames [{GLFW_KEY_2}, {GLFW_KEY_2}, {}, {GLFW_KEY_2}, {}, {GLFW_KEY_2, GLFW_KEY_W}] init_state) ! 1
   \<and> applyRotation (run_frames (replicate 2 {GLFW_KEY_2} @ replicate 1 {}) init_state)
   \<and> \<not> applyTranslation (run_frames (replicate 2 {GLFW_KEY_2} @ replicate 1 {}) init_state)
   \<and> toggleStates (run_frames [{GLFW_KEY_2}, {GLFW_KEY_2}, {GLFW_KEY_2}] init_state) ! 1
       = toggleStates (processInput {GLFW_KEY_2} init_state) ! 1"
  using toggle_presses [of 1 init_state
      "[{GLFW_KEY_2}, {GLFW_KEY_2}, {}, {GLFW_KEY_2}, {}, {GLFW_KEY_2, GLFW_KEY_W}]"
      2 1 1 init_state "{GLFW_KEY_2}" "[{GLFW_KEY_2}, {GLFW_KEY_2}]"]
    init_state_wf
  by (simp add: keys_def init_state_slots)


subsection \<open>The movement keys\<close>

lemma move_axis_fixed:
  "move_axis k (s\<lparr>cameraPos := p\<rparr>) = move_axis k s"
  "move_axis k (s\<lparr>deltaTime := d\<rparr>) = move_axis k s"
  "move_axis k (s\<lparr>lastFrame := l\<rparr>) = move_axis k s"
  by (cases k; simp)+

lemma move_axis_cong:
  "cameraFront s' = cameraFront s \<Longrightarrow> cameraUp s' = cameraUp s \<Longrightarrow> move_axis k s' = move_axis k s"
  by (cases k) simp_all

lemma write_flag_lastFrame [simp]: "lastFrame (write_flag f v s) = lastFrame s"
  by (cases f) simp_all

lemma toggle_key_camera [simp]:
  "cameraPos (toggle_key w j s) = cameraPos s"
  "cameraFront (toggle_key w j s) = cameraFront s"
  "cameraUp (toggle_key w j s) = cameraUp s"
  "lastFrame (toggle_key w j s) = lastFrame s"
  by (simp_all add: toggle_key_def Let_def)

lemma reset_toggle_camera [simp]:
  "cameraPos (reset_toggle j s) = cameraPos s"
  "cameraFront (reset_toggle j s) = cameraFront s"
  "cameraUp (reset_toggle j s) = cameraUp s"
  "lastFrame (reset_toggle j s) = lastFrame s"
  by (simp_all add: reset_toggle_def)

lemma fold_toggle_key_camera [simp]:
  "cameraPos (fold (toggle_key w) js s) = cameraPos s"
  "cameraFront (fold (toggle_key w) js s) = cameraFront s"
  "cameraUp (fold (toggle_key w) js s) = cameraUp s"
  "lastFrame (fold (toggle_key w) js s) = lastFrame s"
  by (induction js arbitrary: s) simp_all

lemma fold_reset_toggle_camera [simp]:
  "cameraPos (fold reset_toggle js s) = cameraPos s"
  "cameraFront (fold reset_toggle js s) = cameraFront s"
  "cameraUp (fold reset_toggle js s) = cameraUp s"
  "lastFrame (fold reset_toggle js s) = lastFrame s"
  by (induction js arbitrary: s) simp_all

lemma move_camera_fixed [simp]:
  "cameraFront (move_camera w s) = cameraFront s"
  "cameraUp (move_camera w s) = cameraUp s"
  "lastFrame (move_camera w s) = lastFrame s"
  by (simp_all add: move_camera_def Let_def)

lemma processInput_camera:
  "cameraPos (processInput w s) = cameraPos (move_camera w s)"
  "cameraFront (processInput w s) = cameraFront s"
  "cameraUp (processInput w s) = cameraUp s"
  "lastFrame (processInput w s) = lastFrame s"
  by (simp_all add: processInput_def Let_def)

lemma vsub_smul: "vsub p (smul c v) = vadd p (smul c (smul (-1) v))"
  by (cases p; cases v) simp

lemma vadd_smul_smul: "vadd (vadd p (smul x a)) (smul y a) = vadd p (smul (x + y) a)"
  by (cases p; cases a) (simp add: algebra_simps)

lemma vadd_smul_0: "vadd p (smul 0 a) = p"
  by (cases p; cases a) simp

lemma single_key:
  assumes "w \<inter> {GLFW_KEY_W, GLFW_KEY_A, GLFW_KEY_S, GLFW_KEY_D} = {k}"
  shows "(GLFW_KEY_W \<in> w) = (k = GLFW_KEY_W)" and "(GLFW_KEY_A \<in> w) = (k = GLFW_KEY_A)"
    and "(GLFW_KEY_S \<in> w) = (k = GLFW_KEY_S)" and "(GLFW_KEY_D \<in> w) = (k = GLFW_KEY_D)"
    and "k = GLFW_KEY_W \<or> k = GLFW_KEY_A \<or> k = GLFW_KEY_S \<or> k = GLFW_KEY_D"
  using assms by blast+

lemma cameraPos_move_camera:
  assumes "w \<inter> {GLFW_KEY_W, GLFW_KEY_A, GLFW_KEY_S, GLFW_KEY_D} = {k}"
  shows "cameraPos (move_camera w s)
           = vadd (cameraPos s) (smul (2.5 * deltaTime s) (move_axis k s))"
  using single_key(5) [OF assms]
  by (auto simp: move_camera_def Let_def glfwGetKey_def single_key(1-4) [OF assms] vsub_smul)

lemma hold_frame_camera:
  assumes "w \<inter> {GLFW_KEY_W, GLFW_KEY_A, GLFW_KEY_S, GLFW_KEY_D} = {k}"
  shows "cameraPos (hold_frame w dt s) = vadd (cameraPos s) (smul (2.5 * dt) (move_axis k s))"
    and "cameraFront (hold_frame w dt s) = cameraFront s"
    and "cameraUp (hold_frame w dt s) = cameraUp s"
  by (simp_all add: hold_frame_def render_frame_def Let_def poll_events_def processInput_camera
      cameraPos_move_camera [OF assms] move_axis_fixed)


lemma hold_key_Nil [simp]: "hold_key w [] s = s"
  by (simp add: hold_key_def)

lemma hold_key_Cons [simp]: "hold_key w (dt # dts) s = hold_key w dts (hold_frame w dt s)"
  by (simp add: hold_key_def)

lemma cameraPos_hold_key:
  assumes "w \<inter> {GLFW_KEY_W, GLFW_KEY_A, GLFW_KEY_S, GLFW_KEY_D} = {k}"
  shows "cameraPos (hold_key w dts s)
           = vadd (cameraPos s) (smul (2.5 * sum_list dts) (move_axis k s))"
proof (induction dts arbitrary: s)
  case Nil
  then show ?case by (simp add: vadd_smul_0)
next
  case (Cons dt dts)
  have axis: "move_axis k (hold_frame w dt s) = move_axis k s"
    by (rule move_axis_cong) (simp_all add: hold_frame_camera [OF assms])
  have scalar: "2.5 * dt + 2.5 * sum_list dts = 2.5 * sum_list (dt # dts)"
    by (simp add: distrib_left)
  have "cameraPos (hold_key w (dt # dts) s)
          = vadd (vadd (cameraPos s) (smul (2.5 * dt) (move_axis k s)))
                 (smul (2.5 * sum_list dts) (move_axis k s))"
    by (simp add: Cons.IH axis hold_frame_camera(1) [OF assms])
  also have "\<dots> = vadd (cameraPos s) (smul (2.5 * dt + 2.5 * sum_list dts) (move_axis k s))"
    by (rule vadd_smul_smul)
  also have "\<dots> = vadd (cameraPos s) (smul (2.5 * sum_list (dt # dts)) (move_axis k s))"
    by (simp only: scalar)
  finally show ?case .
qed

text \<open>
  C6. Let \<open>k\<close> be the one movement key among W, A, S and D that is down (for A and D, with
  a front vector that is not parallel to the up vector). Over frames whose clock steps
  are \<open>dts\<close>, positive or not, the camera moves by 2.5 times the sum of the steps along
  the axis of \<open>k\<close>, the front and up vectors staying as they were; so two lists of steps
  with the same sum end at the same position. The arithmetic is that of the reals.
\<close>

theorem movement_displacement:
  assumes "w \<inter> {GLFW_KEY_W, GLFW_KEY_A, GLFW_KEY_S, GLFW_KEY_D} = {k}"
    and "k \<in> {GLFW_KEY_A, GLFW_KEY_D} \<longrightarrow> glm_cross (cameraFront s) (cameraUp s) \<noteq> Vec3 0 0 0"
  shows "cameraPos (hold_key w dts s)
           = vadd (cameraPos s) (smul (2.5 * sum_list dts) (move_axis k s))
       \<and> cameraFront (hold_key w dts s) = cameraFront s
       \<and> cameraUp (hold_key w dts s) = cameraUp s
       \<and> (sum_list dts' = sum_list dts \<longrightarrow>
            cameraPos (hold_key w dts' s) = cameraPos (hold_key w dts s))"
proof -
  have fixed: "cameraFront (hold_key w dts s) = cameraFront s \<and> cameraUp (hold_key w dts s) = cameraUp s"
    by (induction dts arbitrary: s) (simp_all add: hold_frame_camera [OF assms(1)])
  show ?thesis
    using fixed by (simp add: cameraPos_hold_key [OF assms(1)])
qed

theorem movement_displacement_witness:
  "{GLFW_KEY_D, GLFW_KEY_2} \<inter> {GLFW_KEY_W, GLFW_KEY_A, GLFW_KEY_S, GLFW_KEY_D} = {GLFW_KEY_D}
   \<and> glm_cross (cameraFront init_state) (cameraUp init_state) \<noteq> Vec3 0 0 0
   \<and> sum_list [1/2, 1/2, 1] = sum_list [1/4, 7/4 :: real]
   \<and> cameraPos (hold_key {GLFW_KEY_D, GLFW_KEY_2} [1/4, 7/4] init_state) = Vec3 5 0 3
   \<and> cameraPos (hold_key {GLFW_KEY_D, GLFW_KEY_2} [1/2, 1/2, 1] init_state) = Vec3 5 0 3"
  using movement_displacement [of "{GLFW_KEY_D, GLFW_KEY_2}" GLFW_KEY_D init_state
      "[1/4, 7/4]" "[1/2, 1/2, 1]"]
  by (simp add: init_state_def glm_normalize_def)


end
